theory Spec2Isabelle
  imports Complex_Main
begin

section \<open>Numbers, configuration and candles\<close>

text \<open>
  The bot (\<^verbatim>\<open>bot.py\<close>) works on Python floats. A price read from a provider is
  modelled as \<open>real option\<close>: \<open>Some r\<close> is the number \<open>r\<close> and \<open>None\<close> is NaN, which
  \<^verbatim>\<open>pd.to_numeric(..., errors="coerce")\<close> produces and which the provider's table may
  hold. Arithmetic on prices is exact (no rounding error, no infinities); NaN propagates
  through \<open>-\<close>, \<open>+\<close>, \<open>*\<close> and \<open>abs\<close>, and every comparison with NaN is false, as in
  Python.
\<close>

type_synonym pyfloat = "real option"

definition fsub :: "pyfloat \<Rightarrow> pyfloat \<Rightarrow> pyfloat" where
  "fsub a b = (case a of None \<Rightarrow> None | Some x \<Rightarrow> (case b of None \<Rightarrow> None | Some y \<Rightarrow> Some (x - y)))"

definition fadd :: "pyfloat \<Rightarrow> pyfloat \<Rightarrow> pyfloat" where
  "fadd a b = (case a of None \<Rightarrow> None | Some x \<Rightarrow> (case b of None \<Rightarrow> None | Some y \<Rightarrow> Some (x + y)))"

definition fmul :: "pyfloat \<Rightarrow> pyfloat \<Rightarrow> pyfloat" where
  "fmul a b = (case a of None \<Rightarrow> None | Some x \<Rightarrow> (case b of None \<Rightarrow> None | Some y \<Rightarrow> Some (x * y)))"

definition fabs :: "pyfloat \<Rightarrow> pyfloat" where
  "fabs a = (case a of None \<Rightarrow> None | Some x \<Rightarrow> Some \<bar>x\<bar>)"

definition fgt :: "pyfloat \<Rightarrow> pyfloat \<Rightarrow> bool" where
  "fgt a b = (case a of None \<Rightarrow> False | Some x \<Rightarrow> (case b of None \<Rightarrow> False | Some y \<Rightarrow> y < x))"

text \<open>
  Python's \<^verbatim>\<open>max(a, b)\<close> keeps its first argument unless the second compares greater,
  so \<^verbatim>\<open>max(0.0008, nan)\<close> is \<^verbatim>\<open>0.0008\<close>.
\<close>

definition py_max :: "pyfloat \<Rightarrow> pyfloat \<Rightarrow> pyfloat" where
  "py_max a b = (if fgt b a then b else a)"

text \<open>The nearest integer, a tie going to the even one.\<close>

definition round_half_even :: "real \<Rightarrow> int" where
  "round_half_even y =
     (let f = \<lfloor>y\<rfloor>; d = y - of_int f
      in if d < 1 / 2 then f else if 1 / 2 < d then f + 1 else if even f then f else f + 1)"

text \<open>
  The balance and the amounts computed from it are Python floats as well, and there the
  rounding of each operation is modelled. For these values \<open>Some r\<close> is the finite
  double \<open>r\<close> and \<open>None\<close> is any float that is not finite (an infinity or NaN).

  \<open>fl x\<close> is the binary64 number nearest to the real \<open>x\<close>, a tie going to the even
  significand: for \<open>2 ^ e \<le> \<bar>x\<bar> < 2 ^ (e + 1)\<close> the doubles around \<open>x\<close> are the
  multiples of \<open>ulp x = 2 ^ (e - 52)\<close>, and below \<open>2 ^ - 1022\<close> the multiples of
  \<open>2 ^ - 1074\<close>. A result that rounds to \<open>2 ^ 1024\<close> or beyond overflows to an infinity.
\<close>

type_synonym float64 = "real option"

definition binade :: "real \<Rightarrow> int" where
  "binade x = \<lfloor>log 2 \<bar>x\<bar>\<rfloor>"

definition ulp :: "real \<Rightarrow> real" where
  "ulp x = 2 powr of_int (max (binade x) (- 1022) - 52)"

definition fl :: "real \<Rightarrow> real" where
  "fl x = (if x = 0 then 0 else of_int (round_half_even (x / ulp x)) * ulp x)"

definition to_float64 :: "real \<Rightarrow> float64" where
  "to_float64 x = (if \<bar>fl x\<bar> < 2 ^ 1024 then Some (fl x) else None)"

text \<open>
  Float \<open>+\<close>, \<open>-\<close> and \<open>*\<close>: the exact result, rounded; an operand that is not
  finite gives a result that is not finite. \<open>float_div\<close> divides by a finite constant
  other than zero (the \<^verbatim>\<open>100.0\<close> of line 145).
\<close>

definition float_add :: "float64 \<Rightarrow> float64 \<Rightarrow> float64" where
  "float_add a b =
     (case a of None \<Rightarrow> None | Some x \<Rightarrow> (case b of None \<Rightarrow> None | Some y \<Rightarrow> to_float64 (x + y)))"

definition float_sub :: "float64 \<Rightarrow> float64 \<Rightarrow> float64" where
  "float_sub a b =
     (case a of None \<Rightarrow> None | Some x \<Rightarrow> (case b of None \<Rightarrow> None | Some y \<Rightarrow> to_float64 (x - y)))"

definition float_mul :: "float64 \<Rightarrow> float64 \<Rightarrow> float64" where
  "float_mul a b =
     (case a of None \<Rightarrow> None | Some x \<Rightarrow> (case b of None \<Rightarrow> None | Some y \<Rightarrow> to_float64 (x * y)))"

definition float_div :: "float64 \<Rightarrow> real \<Rightarrow> float64" where
  "float_div a d = (case a of None \<Rightarrow> None | Some x \<Rightarrow> to_float64 (x / d))"

text \<open>
  \<^verbatim>\<open>round(x, 2)\<close>: the exact value of the double \<open>x\<close> is rounded to the nearest
  multiple of \<open>1/100\<close>, a tie going to the even one, and the double nearest to that is
  returned; a float that is not finite is returned as it is. \<^verbatim>\<open>int(x)\<close> truncates
  towards zero.
\<close>

definition py_round2 :: "float64 \<Rightarrow> float64" where
  "py_round2 a =
     (case a of None \<Rightarrow> None | Some x \<Rightarrow> to_float64 (of_int (round_half_even (x * 100)) / 100))"

definition py_int :: "real \<Rightarrow> int" where
  "py_int x = (if 0 \<le> x then \<lfloor>x\<rfloor> else \<lceil>x\<rceil>)"

text \<open>
  The module-level configuration (lines 14--30). \<^verbatim>\<open>RR\<close> is a finite float
  (\<^verbatim>\<open>int(RR)\<close> of lines 132 and 136 raises otherwise); \<^verbatim>\<open>TWELVEDATA_KEY\<close> is the
  stripped key, empty when not set.
\<close>

record config =
  START_CAPITAL :: float64
  RISK_PERCENT :: float64
  RR :: real
  DEMO_RESULT :: bool
  TWELVEDATA_KEY :: string

definition PAIR_LIST :: "string list" where
  "PAIR_LIST = [''EUR/USD'', ''GBP/USD'']"

text \<open>
  A dataframe is the list of its rows, row 0 first. Only the four price columns are
  kept: no function of the bot reads \<^verbatim>\<open>datetime\<close> or any further column.
\<close>

record candle =
  open_col :: pyfloat
  high_col :: pyfloat
  low_col :: pyfloat
  close_col :: pyfloat

type_synonym dataframe = "candle list"

section \<open>The exponentially weighted mean of pandas\<close>

text \<open>
  \<^verbatim>\<open>Series.ewm(span=s).mean()\<close> with the defaults \<^verbatim>\<open>adjust=True\<close>,
  \<^verbatim>\<open>ignore_na=False\<close>, \<^verbatim>\<open>min_periods=0\<close>: with \<open>\<alpha> = 2 / (s + 1)\<close>, entry \<open>t\<close> is the
  average of entries \<open>0..t\<close> of the series in which entry \<open>t - i\<close> has weight
  \<open>(1 - \<alpha>) ^ i\<close>. pandas computes it in one pass that carries the running average
  \<open>weighted\<close>, the total weight \<open>old_wt\<close> of what it has averaged and the number \<open>nobs\<close>
  of numbers seen; the output is NaN until a number has been seen.
\<close>

fun ewm_loop :: "real \<Rightarrow> pyfloat \<Rightarrow> real \<Rightarrow> nat \<Rightarrow> pyfloat list \<Rightarrow> pyfloat list" where
  "ewm_loop old_wt_factor weighted old_wt nobs [] = []"
| "ewm_loop old_wt_factor weighted old_wt nobs (cur # rest) =
     (let nobs' = nobs + (if cur = None then 0 else 1);
          step = (case weighted of
                    Some w \<Rightarrow>
                      (let ow = old_wt * old_wt_factor
                       in case cur of
                            Some c \<Rightarrow> (if w \<noteq> c then Some ((ow * w + c) / (ow + 1)) else Some w, ow + 1)
                          | None \<Rightarrow> (Some w, ow))
                  | None \<Rightarrow> (cur, old_wt))
      in (if 1 \<le> nobs' then fst step else None)
           # ewm_loop old_wt_factor (fst step) (snd step) nobs' rest)"

definition ewm_mean :: "real \<Rightarrow> pyfloat list \<Rightarrow> pyfloat list" where
  "ewm_mean spn vals =
     (case vals of
        [] \<Rightarrow> []
      | v0 # rest \<Rightarrow>
          (let alpha = 2 / (spn + 1); nobs = (if v0 = None then 0 else 1 :: nat)
           in (if 1 \<le> nobs then v0 else None) # ewm_loop (1 - alpha) v0 1 nobs rest))"

section \<open>Strategy: \<^verbatim>\<open>analyze_pair\<close>\<close>

datatype direction = BUY | SELL

text \<open>The tuple \<^verbatim>\<open>analyze_pair\<close> returns; \<open>rr_text\<close> holds the integer of \<^verbatim>\<open>f"{int(RR)}:1"\<close>.\<close>

record signal =
  sig_direction :: direction
  sig_entry :: pyfloat
  sig_sl :: pyfloat
  sig_tp :: pyfloat
  sig_rng :: pyfloat
  sig_rr_text :: int

text \<open>Lines 129--136: stop and target on either side of the entry.\<close>

definition sl_tp :: "config \<Rightarrow> direction \<Rightarrow> pyfloat \<Rightarrow> pyfloat \<Rightarrow> pyfloat \<times> pyfloat" where
  "sl_tp cfg d entry rng =
     (if d = BUY
      then (fsub entry rng, fadd entry (fmul rng (Some (RR cfg))))
      else (fadd entry rng, fsub entry (fmul rng (Some (RR cfg)))))"

text \<open>
  Lines 115--138. The guard makes \<open>df\<close> hold 60 rows or more, and \<open>ewm_mean\<close> keeps
  the length of the column, so \<open>hd\<close> (\<^verbatim>\<open>iloc[0]\<close>) always reads an existing row.
\<close>

definition analyze_pair :: "config \<Rightarrow> dataframe option \<Rightarrow> signal option" where
  "analyze_pair cfg dfo =
     (case dfo of
        None \<Rightarrow> None
      | Some df \<Rightarrow>
          if df = [] \<or> length df < 60 then None
          else
            (let EMA20 = ewm_mean 20 (map close_col df);
                 EMA50 = ewm_mean 50 (map close_col df);
                 row = hd df;
                 d = (if fgt (hd EMA20) (hd EMA50) then BUY else SELL);
                 rng = py_max (Some 0.0008) (fabs (fsub (high_col (hd df)) (low_col (hd df))));
                 entry = close_col row;
                 (sl, tp) = sl_tp cfg d entry rng
             in Some \<lparr>sig_direction = d, sig_entry = entry, sig_sl = sl, sig_tp = tp,
                      sig_rng = rng, sig_rr_text = py_int (RR cfg)\<rparr>))"

section \<open>Data fetchers\<close>

datatype py_error = RequestException | ValueError | KeyError | TypeError

text \<open>
  What the bot cannot control is an input of the model. The TwelveData exchange of lines
  70--75 has three outcomes: an exception (transport failure, a body that is not JSON, a
  body on which \<^verbatim>\<open>.get\<close> or \<^verbatim>\<open>in\<close> is not defined, a value that
  \<^verbatim>\<open>pd.DataFrame\<close> refuses), a body without \<^verbatim>\<open>"values"\<close> in
  \<^verbatim>\<open>js.get("data", {})\<close>, or the frame that \<^verbatim>\<open>pd.DataFrame(js["data"]["values"])\<close>
  builds, whatever JSON value it is built from. The frame is given by its column labels
  and its rows, a row being the association list from column label to the text of the
  cell the row holds there (no entry: NaN). A list of row objects has a column for every
  key some object has, and none when the list is empty; an object of empty arrays has
  columns and no rows.
\<close>

type_synonym json_row = "(string \<times> string) list"

datatype td_reply = TdRaises py_error | TdNoValues | TdFrame "string list" "json_row list"

text \<open>\<^verbatim>\<open>df[col]\<close> raises \<^verbatim>\<open>KeyError\<close> when the frame has no column \<open>col\<close>.\<close>

definition has_column :: "string list \<Rightarrow> string \<Rightarrow> bool" where
  "has_column cols col = (col \<in> set cols)"

text \<open>
  \<^verbatim>\<open>pd.to_numeric(..., errors="coerce")\<close> on one cell: a cell that does not coerce to
  a number becomes NaN. The coercion of a cell's text is the parameter \<open>parse\<close>.
\<close>

definition to_numeric :: "(string \<Rightarrow> real option) \<Rightarrow> string option \<Rightarrow> pyfloat" where
  "to_numeric parse cell = (case cell of None \<Rightarrow> None | Some s \<Rightarrow> parse s)"

definition td_row :: "(string \<Rightarrow> real option) \<Rightarrow> json_row \<Rightarrow> candle" where
  "td_row parse r =
     \<lparr>open_col = to_numeric parse (map_of r ''open''),
      high_col = to_numeric parse (map_of r ''high''),
      low_col = to_numeric parse (map_of r ''low''),
      close_col = to_numeric parse (map_of r ''close'')\<rparr>"

text \<open>
  The body of the \<^verbatim>\<open>try\<close> of \<^verbatim>\<open>fetch_from_twelvedata\<close> (lines 66--78). The frame
  keeps its rows, however many or few.
\<close>

definition fetch_from_twelvedata_body ::
  "config \<Rightarrow> (string \<Rightarrow> real option) \<Rightarrow> td_reply \<Rightarrow> py_error + dataframe option" where
  "fetch_from_twelvedata_body cfg parse reply =
     (if TWELVEDATA_KEY cfg = [] then Inr None
      else case reply of
             TdRaises e \<Rightarrow> Inl e
           | TdNoValues \<Rightarrow> Inr None
           | TdFrame cols rows \<Rightarrow>
               if list_all (has_column cols) [''open'', ''high'', ''low'', ''close'']
               then Inr (Some (map (td_row parse) rows))
               else Inl KeyError)"

text \<open>\<^verbatim>\<open>except Exception as e: print(...); return None\<close>.\<close>

definition except_none :: "py_error + 'a option \<Rightarrow> 'a option" where
  "except_none r = (case r of Inl e \<Rightarrow> None | Inr v \<Rightarrow> v)"

definition fetch_from_twelvedata ::
  "config \<Rightarrow> (string \<Rightarrow> real option) \<Rightarrow> td_reply \<Rightarrow> dataframe option" where
  "fetch_from_twelvedata cfg parse reply = except_none (fetch_from_twelvedata_body cfg parse reply)"

text \<open>
  Yahoo (line 87) raises, returns \<^verbatim>\<open>None\<close>, or returns a table indexed by time, maybe
  empty. Line 90 sorts it by index, latest first.
\<close>

record yf_row =
  yf_index :: int
  yf_Open :: pyfloat
  yf_High :: pyfloat
  yf_Low :: pyfloat
  yf_Close :: pyfloat

datatype yf_reply = YfRaises py_error | YfNone | YfFrame "yf_row list"

definition sort_index_desc :: "yf_row list \<Rightarrow> yf_row list" where
  "sort_index_desc data = sort_key (\<lambda>r. - yf_index r) data"

definition yf_candle :: "yf_row \<Rightarrow> candle" where
  "yf_candle r = \<lparr>open_col = yf_Open r, high_col = yf_High r, low_col = yf_Low r, close_col = yf_Close r\<rparr>"

definition fetch_from_yahoo_body :: "yf_reply \<Rightarrow> py_error + dataframe option" where
  "fetch_from_yahoo_body reply =
     (case reply of
        YfRaises e \<Rightarrow> Inl e
      | YfNone \<Rightarrow> Inr None
      | YfFrame data \<Rightarrow>
          if data = [] then Inr None
          else Inr (Some (map yf_candle (sort_index_desc data))))"

definition fetch_from_yahoo :: "yf_reply \<Rightarrow> dataframe option" where
  "fetch_from_yahoo reply = except_none (fetch_from_yahoo_body reply)"

text \<open>
  The world of one job run: the Dhaka clock, the float parser of pandas, what each
  provider answers for a pair, and the draw of \<^verbatim>\<open>random.random()\<close> made for a pair.
\<close>

record world =
  w_weekday :: nat
  w_day :: nat
  w_parse :: "string \<Rightarrow> real option"
  w_twelvedata :: "string \<Rightarrow> td_reply"
  w_yahoo :: "string \<Rightarrow> yf_reply"
  w_random :: "string \<Rightarrow> real"

text \<open>Lines 103--108.\<close>

definition get_candle :: "config \<Rightarrow> world \<Rightarrow> string \<Rightarrow> dataframe option" where
  "get_candle cfg w pair =
     (case fetch_from_twelvedata cfg (w_parse w) (w_twelvedata w pair) of
        None \<Rightarrow> fetch_from_yahoo (w_yahoo w pair)
      | Some df \<Rightarrow> Some df)"

section \<open>Jobs and the balance\<close>

text \<open>
  The state of the process: the global \<^verbatim>\<open>capital\<close> and the texts handed to
  \<^verbatim>\<open>send\<close>, oldest first. A message keeps the values its text is formatted from.
\<close>

datatype message =
    SignalMsg string signal float64 float64
  | ResultMsg string bool pyfloat float64 float64
  | HeartbeatMsg "(string \<times> pyfloat option) list"
  | ResetMsg

record bot_state =
  capital :: float64
  sent :: "message list"

definition send :: "message \<Rightarrow> bot_state \<Rightarrow> bot_state" where
  "send m st = st\<lparr>sent := sent st @ [m]\<rparr>"

definition is_weekend_off :: "world \<Rightarrow> bool" where
  "is_weekend_off w = (w_weekday w = 4 \<or> w_weekday w = 5 \<or> w_weekday w = 6)"

text \<open>Lines 177--197: \<^verbatim>\<open>capital += reward\<close> and \<^verbatim>\<open>capital -= risk\<close> are float operations.\<close>

definition send_result ::
  "string \<Rightarrow> bool \<Rightarrow> pyfloat \<Rightarrow> pyfloat \<Rightarrow> pyfloat \<Rightarrow> float64 \<Rightarrow> float64 \<Rightarrow> bot_state \<Rightarrow> bot_state" where
  "send_result pair win entry sl tp risk reward st =
     (if win
      then (let st' = st\<lparr>capital := float_add (capital st) reward\<rparr>
            in send (ResultMsg pair True tp reward (capital st')) st')
      else (let st' = st\<lparr>capital := float_sub (capital st) risk\<rparr>
            in send (ResultMsg pair False sl risk (capital st')) st'))"

text \<open>The loop of lines 148--175, then \<^verbatim>\<open>signal_scan\<close> (lines 140--175).\<close>

fun scan_pairs ::
  "config \<Rightarrow> world \<Rightarrow> float64 \<Rightarrow> float64 \<Rightarrow> string list \<Rightarrow> bot_state \<Rightarrow> bot_state" where
  "scan_pairs cfg w risk reward [] st = st"
| "scan_pairs cfg w risk reward (pair # pairs) st =
     (case get_candle cfg w pair of
        None \<Rightarrow> scan_pairs cfg w risk reward pairs st
      | Some df \<Rightarrow>
          (case analyze_pair cfg (Some df) of
             None \<Rightarrow> scan_pairs cfg w risk reward pairs st
           | Some res \<Rightarrow>
               (let st1 = send (SignalMsg pair res risk reward) st;
                    st2 = (if DEMO_RESULT cfg
                           then send_result pair (0.35 < w_random w pair) (sig_entry res)
                                  (sig_sl res) (sig_tp res) risk reward st1
                           else st1)
                in scan_pairs cfg w risk reward pairs st2)))"

definition signal_scan :: "config \<Rightarrow> world \<Rightarrow> bot_state \<Rightarrow> bot_state" where
  "signal_scan cfg w st =
     (if is_weekend_off w then st
      else (let risk = py_round2 (float_mul (capital st) (float_div (RISK_PERCENT cfg) 100));
                reward = py_round2 (float_mul risk (Some (RR cfg)))
            in scan_pairs cfg w risk reward PAIR_LIST st))"

text \<open>Lines 202--212.\<close>

definition heartbeat :: "config \<Rightarrow> world \<Rightarrow> bot_state \<Rightarrow> bot_state" where
  "heartbeat cfg w st =
     send (HeartbeatMsg
             (map (\<lambda>pair. (pair, (case get_candle cfg w pair of
                                     None \<Rightarrow> None
                                   | Some df \<Rightarrow> if df \<noteq> [] then Some (close_col (hd df)) else None)))
                  PAIR_LIST)) st"

text \<open>Lines 233--246.\<close>

definition monthly_auto_reset :: "config \<Rightarrow> world \<Rightarrow> bot_state \<Rightarrow> bot_state" where
  "monthly_auto_reset cfg w st =
     (if w_day w \<noteq> 1 then st
      else send ResetMsg (st\<lparr>capital := START_CAPITAL cfg\<rparr>))"

section \<open>Reference definitions and sample inputs\<close>

text \<open>
  The moving average in the words of the specification: smoothing factor
  \<open>2 / (span + 1)\<close>, seeded by the first value, run over the closes in time order
  (oldest first); its value at the latest candle.
\<close>

fun ema_run :: "real \<Rightarrow> real \<Rightarrow> real list \<Rightarrow> real" where
  "ema_run a e [] = e"
| "ema_run a e (x # xs) = ema_run a (a * x + (1 - a) * e) xs"

definition spec_ema_latest :: "real \<Rightarrow> real list \<Rightarrow> real option" where
  "spec_ema_latest spn closes =
     (case closes of [] \<Rightarrow> None | x # rest \<Rightarrow> Some (ema_run (2 / (spn + 1)) x rest))"

text \<open>A small parser of unsigned decimals, standing in for the parser of pandas in examples.\<close>

definition digit_of :: "char \<Rightarrow> nat option" where
  "digit_of c = (let n = (of_char c :: nat) in if 48 \<le> n \<and> n \<le> 57 then Some (n - 48) else None)"

fun digits_value :: "nat \<Rightarrow> string \<Rightarrow> nat option" where
  "digits_value acc [] = Some acc"
| "digits_value acc (c # cs) =
     (case digit_of c of None \<Rightarrow> None | Some d \<Rightarrow> digits_value (10 * acc + d) cs)"

definition parse_decimal :: "string \<Rightarrow> real option" where
  "parse_decimal s =
     (let ip = takeWhile (\<lambda>c. c \<noteq> CHR ''.'') s; fp = drop (length ip + 1) s
      in if ip @ fp = [] then None
         else case digits_value 0 (ip @ fp) of
                None \<Rightarrow> None
              | Some n \<Rightarrow> Some (real n / 10 ^ length fp))"

text \<open>The default configuration, without and with a TwelveData key, and with the demo toggle.\<close>

definition default_cfg :: config where
  "default_cfg = \<lparr>START_CAPITAL = Some 1000, RISK_PERCENT = Some 2, RR = 2,
                  DEMO_RESULT = False, TWELVEDATA_KEY = []\<rparr>"

definition keyed_cfg :: config where
  "keyed_cfg = default_cfg\<lparr>TWELVEDATA_KEY := ''k''\<rparr>"

definition demo_cfg :: config where
  "demo_cfg = default_cfg\<lparr>DEMO_RESULT := True\<rparr>"

text \<open>A candle closing at \<open>c\<close> with a range of 20 pips.\<close>

definition candle_at :: "real \<Rightarrow> candle" where
  "candle_at c = \<lparr>open_col = Some c, high_col = Some (c + 0.001), low_col = Some (c - 0.001),
                  close_col = Some c\<rparr>"

text \<open>
  Sixty hourly closes in time order: 59 at 1.10000, then the latest at 1.10100; and the
  dataframe of these candles, latest first.
\<close>

definition rising_closes :: "real list" where
  "rising_closes = replicate 59 1.1 @ [1.101]"

definition rising_df :: dataframe where
  "rising_df = map candle_at (rev rising_closes)"

text \<open>Yahoo's table for the same sixty candles, in time order.\<close>

definition rising_yf :: "yf_row list" where
  "rising_yf = map (\<lambda>i. \<lparr>yf_index = int i, yf_Open = Some (rising_closes ! i),
                          yf_High = Some (rising_closes ! i + 0.001),
                          yf_Low = Some (rising_closes ! i - 0.001),
                          yf_Close = Some (rising_closes ! i)\<rparr>) [0..<60]"

text \<open>A Monday, the 2nd of the month, on which no provider answers.\<close>

definition silent_world :: world where
  "silent_world = \<lparr>w_weekday = 0, w_day = 2, w_parse = parse_decimal,
                    w_twelvedata = (\<lambda>pair. TdRaises RequestException),
                    w_yahoo = (\<lambda>pair. YfRaises RequestException),
                    w_random = (\<lambda>pair. 0.5)\<rparr>"

text \<open>The same Monday with Yahoo answering the sixty candles for every pair.\<close>

definition yahoo_world :: world where
  "yahoo_world = silent_world\<lparr>w_yahoo := (\<lambda>pair. YfFrame rising_yf)\<rparr>"

definition start_state :: bot_state where
  "start_state = \<lparr>capital = Some 1000, sent = []\<rparr>"

text \<open>Sixty flat candles: open, high, low and close all at 1.10000.\<close>

definition flat_df :: dataframe where
  "flat_df = replicate 60 \<lparr>open_col = Some 1.1, high_col = Some 1.1, low_col = Some 1.1,
                             close_col = Some 1.1\<rparr>"

text \<open>The pair a message is about, and the signal messages of a pair.\<close>

fun msg_pair :: "message \<Rightarrow> string option" where
  "msg_pair (SignalMsg p res risk reward) = Some p"
| "msg_pair (ResultMsg p win level amount bal) = Some p"
| "msg_pair (HeartbeatMsg ls) = None"
| "msg_pair ResetMsg = None"

fun is_signal_for :: "string \<Rightarrow> message \<Rightarrow> bool" where
  "is_signal_for p (SignalMsg q res risk reward) = (q = p)"
| "is_signal_for p (ResultMsg q win level amount bal) = False"
| "is_signal_for p (HeartbeatMsg ls) = False"
| "is_signal_for p ResetMsg = False"

definition signals_for :: "string \<Rightarrow> message list \<Rightarrow> message list" where
  "signals_for p msgs = filter (is_signal_for p) msgs"

definition messages_for :: "string \<Rightarrow> message list \<Rightarrow> message list" where
  "messages_for p msgs = filter (\<lambda>m. msg_pair m = Some p) msgs"

text \<open>A recorded outcome is one call of \<open>send_result\<close>; a history is a sequence of them.\<close>

record outcome =
  o_pair :: string
  o_win :: bool
  o_entry :: pyfloat
  o_sl :: pyfloat
  o_tp :: pyfloat
  o_risk :: float64
  o_reward :: float64

fun apply_outcomes :: "outcome list \<Rightarrow> bot_state \<Rightarrow> bot_state" where
  "apply_outcomes [] st = st"
| "apply_outcomes (out # outs) st =
     apply_outcomes outs
       (send_result (o_pair out) (o_win out) (o_entry out) (o_sl out) (o_tp out)
          (o_risk out) (o_reward out) st)"

definition one_win :: outcome where
  "one_win = \<lparr>o_pair = ''EUR/USD'', o_win = True, o_entry = Some 1.1, o_sl = Some 1.099,
              o_tp = Some 1.102, o_risk = Some 20, o_reward = Some 40\<rparr>"



definition good_row :: json_row where
  "good_row = [(''datetime'', ''2024-01-01 10:00:00''), (''open'', ''1.1''),
               (''high'', ''1.101''), (''low'', ''1.099''), (''close'', ''1.1'')]"

definition bad_row :: json_row where
  "bad_row = [(''datetime'', ''2024-01-01 09:00:00''), (''open'', ''1.1''),
              (''high'', ''1.101''), (''low'', ''1.099''), (''close'', ''n/a'')]"

definition td_columns :: "string list" where
  "td_columns = [''datetime'', ''open'', ''high'', ''low'', ''close'']"

text \<open>
  The Monday on which TwelveData answers the 30 rows asked for, while Yahoo would
  answer the sixty candles; the same with TwelveData answering 60 rows; and with
  TwelveData answering the five columns without a row.
\<close>

definition primary_world :: world where
  "primary_world =
     yahoo_world\<lparr>w_twelvedata := (\<lambda>pair. TdFrame td_columns (replicate 30 good_row))\<rparr>"

definition primary60_world :: world where
  "primary60_world =
     yahoo_world\<lparr>w_twelvedata := (\<lambda>pair. TdFrame td_columns (replicate 60 good_row))\<rparr>"





section \<open>Basic facts\<close>

lemma fgt_irrefl [simp]: "\<not> fgt a a"
  by (simp add: fgt_def split: option.splits)

lemma ewm_loop_length [simp]: "length (ewm_loop f wt ow n xs) = length xs"
  by (induction xs arbitrary: wt ow n) (simp_all add: Let_def)

lemma ewm_mean_length [simp]: "length (ewm_mean s xs) = length xs"
  by (cases xs) (simp_all add: ewm_mean_def Let_def)

lemma ewm_mean_hd: "xs \<noteq> [] \<Longrightarrow> hd (ewm_mean s xs) = hd xs"
  by (cases xs) (simp_all add: ewm_mean_def Let_def)

lemma py_max_floor: "\<exists>r. py_max (Some a) b = Some r \<and> a \<le> r"
  by (cases b) (simp_all add: py_max_def fgt_def)

lemma py_max_numbers: "py_max (Some a) (Some b) = Some (max a b)"
  by (simp add: py_max_def fgt_def max_def)

lemma analyze_pair_None [simp]: "analyze_pair cfg None = None"
  by (simp add: analyze_pair_def)

lemma analyze_pair_rejected: "length df < 60 \<Longrightarrow> analyze_pair cfg (Some df) = None"
  by (simp add: analyze_pair_def)

lemma analyze_pair_accepted:
  assumes "60 \<le> length df"
  shows "analyze_pair cfg (Some df) =
    Some \<lparr>sig_direction = SELL, sig_entry = close_col (hd df),
          sig_sl = fadd (close_col (hd df))
                     (py_max (Some 0.0008) (fabs (fsub (high_col (hd df)) (low_col (hd df))))),
          sig_tp = fsub (close_col (hd df))
                     (fmul (py_max (Some 0.0008) (fabs (fsub (high_col (hd df)) (low_col (hd df)))))
                        (Some (RR cfg))),
          sig_rng = py_max (Some 0.0008) (fabs (fsub (high_col (hd df)) (low_col (hd df)))),
          sig_rr_text = py_int (RR cfg)\<rparr>"
proof -
  from assms have ne: "df \<noteq> []" by auto
  then have "hd (ewm_mean 20 (map close_col df)) = hd (ewm_mean 50 (map close_col df))"
    by (simp add: ewm_mean_hd)
  with assms ne show ?thesis
    by (simp add: analyze_pair_def Let_def sl_tp_def)
qed

lemma analyze_pair_Some_length: "analyze_pair cfg (Some df) = Some s \<Longrightarrow> 60 \<le> length df"
  by (rule ccontr) (simp add: analyze_pair_rejected)

lemma length_rising_df [simp]: "length rising_df = 60"
  by (simp add: rising_df_def rising_closes_def)

lemma hd_rising_df [simp]: "hd rising_df = candle_at 1.101"
  by (simp add: rising_df_def rising_closes_def)

lemma ema_run_constant: "ema_run a c (replicate n c) = c"
  by (induction n) (simp_all add: algebra_simps)

lemma ema_run_snoc: "ema_run a e (xs @ [y]) = a * y + (1 - a) * ema_run a e xs"
  by (induction xs arbitrary: e) simp_all

lemma round_half_even_of_int [simp]: "round_half_even (of_int m) = m"
  by (simp add: round_half_even_def)


lemma ulp_pos [simp]: "0 < ulp x"
  by (simp add: ulp_def)

lemma ulp_nonzero [simp]: "ulp x \<noteq> 0"
  by (simp add: ulp_def)

lemma ulp_abs [simp]: "\<bar>ulp x\<bar> = ulp x"
  by (simp add: ulp_def)


lemma binade_eq:
  assumes "2 ^ n \<le> \<bar>x\<bar>" and "\<bar>x\<bar> < 2 ^ Suc n"
  shows "binade x = int n"
proof -
  from assms have pos: "0 < \<bar>x\<bar>"
    by (smt (verit) zero_less_power)
  have "2 powr real_of_int (int n) \<le> \<bar>x\<bar> \<and> \<bar>x\<bar> < 2 powr real_of_int (int n + 1)"
    using assms by (simp add: powr_realpow powr_add)
  with pos show ?thesis
    unfolding binade_def by (subst floor_log_eq_powr_iff) auto
qed

lemma ulp_eq:
  assumes "2 ^ n \<le> \<bar>x\<bar>" and "\<bar>x\<bar> < 2 ^ Suc n"
  shows "ulp x = 2 powr (real n - 52)"
  using binade_eq [OF assms] by (simp add: ulp_def max_def)

lemma fl_integral:
  assumes "x / ulp x = of_int m"
  shows "fl x = x"
proof -
  from assms have "x = of_int m * ulp x"
    by (simp add: field_simps)
  with assms show ?thesis
    by (simp add: fl_def)
qed

lemma fl_1040: "fl 1040 = 1040"
proof (rule fl_integral)
  have "ulp 1040 = 2 powr (- 42)"
    using ulp_eq [of 10 1040] by simp
  then show "1040 / ulp 1040 = of_int (1040 * 2 ^ 42)"
    by (simp add: powr_minus field_simps)
qed




section \<open>The direction decided by \<^verbatim>\<open>analyze_pair\<close>\<close>

text \<open>
  Claim C1, evaluated on the sixty candles \<open>rising_closes\<close>: the span-20 average of the
  specification at the latest candle is above the span-50 one, so the claim asks for BUY,
  and \<open>analyze_pair\<close> on the dataframe of these candles returns SELL.
\<close>

theorem analyze_pair_rising_is_SELL:
  "length rising_df = 60
   \<and> map close_col rising_df = map Some (rev rising_closes)
   \<and> spec_ema_latest 20 rising_closes = Some (1.1 + 0.002 / 21)
   \<and> spec_ema_latest 50 rising_closes = Some (1.1 + 0.002 / 51)
   \<and> (1.1 + 0.002 / 51 :: real) < 1.1 + 0.002 / 21
   \<and> analyze_pair cfg (Some rising_df) =
       Some \<lparr>sig_direction = SELL, sig_entry = Some 1.101, sig_sl = Some 1.103,
             sig_tp = Some (1.101 - 0.002 * RR cfg), sig_rng = Some 0.002,
             sig_rr_text = py_int (RR cfg)\<rparr>"
proof -
  have split: "rising_closes = 1.1 # (replicate 58 1.1 @ [1.101])"
    by (simp add: rising_closes_def eval_nat_numeral)
  have e20: "spec_ema_latest 20 rising_closes = Some (1.1 + 0.002 / 21)"
    unfolding split spec_ema_latest_def by (simp add: ema_run_snoc ema_run_constant)
  have e50: "spec_ema_latest 50 rising_closes = Some (1.1 + 0.002 / 51)"
    unfolding split spec_ema_latest_def by (simp add: ema_run_snoc ema_run_constant)
  have closes: "map close_col rising_df = map Some (rev rising_closes)"
    by (simp add: rising_df_def candle_at_def comp_def)
  show ?thesis
    using e20 e50 closes
    by (simp add: analyze_pair_accepted candle_at_def fsub_def fadd_def fmul_def fabs_def
        py_max_numbers)
qed

text \<open>
  Claim C2: every dataframe that \<open>analyze_pair\<close> accepts (60 rows or more) gets the
  direction SELL. The weighted means are taken over the rows latest first, so at row 0
  the EMA20 and the EMA50 column both hold the latest close, and the test for BUY, a
  strict \<open>>\<close> between them, is false.
\<close>

theorem analyze_pair_always_SELL:
  assumes "60 \<le> length df"
  shows "hd (ewm_mean 20 (map close_col df)) = close_col (hd df)
       \<and> hd (ewm_mean 50 (map close_col df)) = close_col (hd df)
       \<and> \<not> fgt (hd (ewm_mean 20 (map close_col df))) (hd (ewm_mean 50 (map close_col df)))
       \<and> (\<exists>s. analyze_pair cfg (Some df) = Some s \<and> sig_direction s = SELL)"
proof -
  from assms have "df \<noteq> []" by auto
  then show ?thesis
    using assms by (simp add: ewm_mean_hd hd_map analyze_pair_accepted)
qed

theorem analyze_pair_always_SELL_witness:
  "60 \<le> length rising_df
   \<and> hd (ewm_mean 20 (map close_col rising_df)) = Some 1.101
   \<and> hd (ewm_mean 50 (map close_col rising_df)) = Some 1.101
   \<and> (\<exists>s. analyze_pair default_cfg (Some rising_df) = Some s \<and> sig_direction s = SELL)"
  using analyze_pair_always_SELL [of rising_df default_cfg]
  by (simp add: candle_at_def)

section \<open>Stop, target and volatility proxy\<close>


text \<open>
  Claim C9: the volatility proxy of every signal is Python's
  \<^verbatim>\<open>max(0.0008, abs(high - low))\<close> of the latest candle: a number, at least 0.0008, equal
  to \<open>max 0.0008 \<bar>h - l\<bar>\<close> when high and low are the numbers \<open>h\<close> and \<open>l\<close>, and 0.0008
  when high equals low.
\<close>

theorem rng_floor:
  assumes "analyze_pair cfg (Some df) = Some s"
  shows "sig_rng s = py_max (Some 0.0008) (fabs (fsub (high_col (hd df)) (low_col (hd df))))
       \<and> (\<exists>r. sig_rng s = Some r \<and> 0.0008 \<le> r)
       \<and> (\<forall>h l. high_col (hd df) = Some h \<and> low_col (hd df) = Some l
                 \<longrightarrow> sig_rng s = Some (max 0.0008 \<bar>h - l\<bar>))
       \<and> (high_col (hd df) = low_col (hd df) \<longrightarrow> sig_rng s = Some 0.0008)"
proof -
  from assms have "60 \<le> length df"
    by (rule analyze_pair_Some_length)
  from analyze_pair_accepted [OF this, of cfg] assms
  have rng: "sig_rng s = py_max (Some 0.0008) (fabs (fsub (high_col (hd df)) (low_col (hd df))))"
    by auto
  have flat: "high_col (hd df) = low_col (hd df) \<Longrightarrow> sig_rng s = Some 0.0008"
    unfolding rng by (cases "low_col (hd df)") (simp_all add: py_max_def fgt_def fabs_def fsub_def)
  show ?thesis
    using rng flat py_max_floor [of "0.0008" "fabs (fsub (high_col (hd df)) (low_col (hd df)))"]
    by (auto simp: fabs_def fsub_def py_max_numbers)
qed

theorem rng_floor_witness:
  "analyze_pair default_cfg (Some flat_df) =
     Some \<lparr>sig_direction = SELL, sig_entry = Some 1.1, sig_sl = Some 1.1008,
           sig_tp = Some 1.0984, sig_rng = Some 0.0008, sig_rr_text = 2\<rparr>
   \<and> high_col (hd flat_df) = low_col (hd flat_df)"
proof -
  have a: "analyze_pair default_cfg (Some flat_df) =
     Some \<lparr>sig_direction = SELL, sig_entry = Some 1.1, sig_sl = Some 1.1008,
           sig_tp = Some 1.0984, sig_rng = Some 0.0008, sig_rr_text = 2\<rparr>"
    by (simp add: analyze_pair_accepted flat_df_def fsub_def fadd_def fmul_def fabs_def
        py_max_numbers default_cfg_def py_int_def)
  show ?thesis
    using rng_floor [OF a] a by (simp add: flat_df_def)
qed

section \<open>The balance\<close>


lemma to_float64_1040: "to_float64 1040 = Some 1040"
  by (simp add: to_float64_def fl_1040)




lemma capital_one_win: "capital (apply_outcomes [one_win] start_state) = Some 1040"
  by (simp add: one_win_def start_state_def send_result_def send_def Let_def float_add_def
      to_float64_1040)




text \<open>
  Claim C6 as stated fails: on the 2nd of the month \<open>monthly_auto_reset\<close> leaves a capital
  of 1040 as it is.
\<close>

theorem monthly_auto_reset_not_unconditional:
  "capital (monthly_auto_reset default_cfg silent_world (apply_outcomes [one_win] start_state))
     = Some 1040
   \<and> START_CAPITAL default_cfg = Some 1000"
  using capital_one_win
  by (simp add: monthly_auto_reset_def silent_world_def default_cfg_def)

text \<open>
  Claim C6, amended: \<open>monthly_auto_reset\<close> holds the test for the first day of the month
  itself. On day 1 it sets the capital to \<open>START_CAPITAL\<close> whatever outcomes were applied
  before; on any other day it changes nothing.
\<close>

theorem monthly_auto_reset_capital:
  "(w_day w = 1 \<longrightarrow>
      capital (monthly_auto_reset cfg w (apply_outcomes outs st)) = START_CAPITAL cfg)
   \<and> (w_day w \<noteq> 1 \<longrightarrow>
      monthly_auto_reset cfg w (apply_outcomes outs st) = apply_outcomes outs st)"
  by (simp add: monthly_auto_reset_def send_def)

theorem monthly_auto_reset_capital_witness:
  "w_day (silent_world\<lparr>w_day := 1\<rparr>) = 1
   \<and> capital (apply_outcomes [one_win] start_state) = Some 1040
   \<and> capital (monthly_auto_reset default_cfg (silent_world\<lparr>w_day := 1\<rparr>)
                (apply_outcomes [one_win] start_state)) = Some 1000
   \<and> w_day silent_world \<noteq> 1
   \<and> monthly_auto_reset default_cfg silent_world (apply_outcomes [one_win] start_state)
       = apply_outcomes [one_win] start_state"
  using monthly_auto_reset_capital [of "silent_world\<lparr>w_day := 1\<rparr>" default_cfg "[one_win]" start_state]
    monthly_auto_reset_capital [of silent_world default_cfg "[one_win]" start_state]
    capital_one_win
  by (simp add: silent_world_def default_cfg_def)

section \<open>Fetching candles\<close>

lemma fetch_from_twelvedata_Some:
  "fetch_from_twelvedata cfg parse reply = Some df \<longleftrightarrow>
     TWELVEDATA_KEY cfg \<noteq> [] \<and>
     (\<exists>cols rows. reply = TdFrame cols rows
        \<and> list_all (has_column cols) [''open'', ''high'', ''low'', ''close'']
        \<and> df = map (td_row parse) rows)"
  by (cases reply)
    (auto simp: fetch_from_twelvedata_def fetch_from_twelvedata_body_def except_none_def)

lemma fetch_from_twelvedata_frame:
  "fetch_from_twelvedata cfg parse (TdFrame cols rows) =
     (if TWELVEDATA_KEY cfg \<noteq> [] \<and> list_all (has_column cols) [''open'', ''high'', ''low'', ''close'']
      then Some (map (td_row parse) rows) else None)"
  by (simp add: fetch_from_twelvedata_def fetch_from_twelvedata_body_def except_none_def)

lemma sort_index_desc_length [simp]: "length (sort_index_desc data) = length data"
  by (simp add: sort_index_desc_def)

lemma sort_index_desc_set [simp]: "set (sort_index_desc data) = set data"
  by (simp add: sort_index_desc_def)


lemma scan_pairs_skip:
  "get_candle cfg w pair = None \<or> analyze_pair cfg (get_candle cfg w pair) = None \<Longrightarrow>
   scan_pairs cfg w risk reward (pair # pairs) st = scan_pairs cfg w risk reward pairs st"
  by (auto split: option.splits)

lemma get_candle_silent: "get_candle default_cfg silent_world pair = None"
  by (simp add: get_candle_def fetch_from_twelvedata_def fetch_from_twelvedata_body_def
      fetch_from_yahoo_def fetch_from_yahoo_body_def except_none_def default_cfg_def
      silent_world_def)


lemma td_columns_has [simp]:
  "has_column td_columns ''open''" "has_column td_columns ''high''"
  "has_column td_columns ''low''" "has_column td_columns ''close''"
  by (simp_all add: has_column_def td_columns_def)

lemma td_columns_present:
  "list_all (has_column td_columns) [''open'', ''high'', ''low'', ''close'']"
  by simp





text \<open>
  Claim C5 as stated fails: a row whose close does not parse is kept, with NaN as its
  close.
\<close>

theorem coerce_keeps_bad_row:
  "fetch_from_twelvedata keyed_cfg parse_decimal (TdFrame td_columns [good_row, bad_row]) =
     Some [\<lparr>open_col = Some 1.1, high_col = Some 1.101, low_col = Some 1.099,
            close_col = Some 1.1\<rparr>,
           \<lparr>open_col = Some 1.1, high_col = Some 1.101, low_col = Some 1.099,
            close_col = None\<rparr>]"
  by (simp add: fetch_from_twelvedata_frame td_columns_present keyed_cfg_def good_row_def
      bad_row_def td_row_def to_numeric_def parse_decimal_def digit_of_def)

text \<open>
  Claim C5, amended: with the key set, a TwelveData fetch whose frame has the columns
  open, high, low and close returns one row for each row of the frame, in order. Each
  cell of these columns is coerced: the price is the number the cell parses to, and NaN
  when its coercion fails. So a row with a cell that fails coercion is kept, with NaN
  for that price, and the fetch does not fail. When one of the four columns is absent
  from the frame, the fetch returns \<open>None\<close>.
\<close>

theorem coerce_keeps_rows:
  "(TWELVEDATA_KEY cfg \<noteq> [] \<and> list_all (has_column cols) [''open'', ''high'', ''low'', ''close'']
      \<longrightarrow> fetch_from_twelvedata cfg parse (TdFrame cols rows) = Some (map (td_row parse) rows))
   \<and> (\<not> list_all (has_column cols) [''open'', ''high'', ''low'', ''close'']
      \<longrightarrow> fetch_from_twelvedata cfg parse (TdFrame cols rows) = None)
   \<and> (fetch_from_twelvedata cfg parse (TdFrame cols rows) = Some df
      \<longrightarrow> length df = length rows
        \<and> (\<forall>i<length rows. \<forall>s.
              (map_of (rows ! i) ''open'' = Some s \<longrightarrow> open_col (df ! i) = parse s)
            \<and> (map_of (rows ! i) ''high'' = Some s \<longrightarrow> high_col (df ! i) = parse s)
            \<and> (map_of (rows ! i) ''low'' = Some s \<longrightarrow> low_col (df ! i) = parse s)
            \<and> (map_of (rows ! i) ''close'' = Some s \<longrightarrow> close_col (df ! i) = parse s)))"
  by (auto simp: fetch_from_twelvedata_frame td_row_def to_numeric_def split: if_splits)

theorem coerce_keeps_rows_witness:
  "TWELVEDATA_KEY keyed_cfg \<noteq> []
   \<and> list_all (has_column td_columns) [''open'', ''high'', ''low'', ''close'']
   \<and> fetch_from_twelvedata keyed_cfg parse_decimal (TdFrame td_columns [good_row, bad_row])
       = Some (map (td_row parse_decimal) [good_row, bad_row])
   \<and> length (map (td_row parse_decimal) [good_row, bad_row]) = 2
   \<and> map_of ([good_row, bad_row] ! 1) ''close'' = Some ''n/a''
   \<and> parse_decimal ''n/a'' = None
   \<and> close_col (map (td_row parse_decimal) [good_row, bad_row] ! 1) = None
   \<and> map_of ([good_row, bad_row] ! 0) ''close'' = Some ''1.1''
   \<and> close_col (map (td_row parse_decimal) [good_row, bad_row] ! 0) = Some 1.1
   \<and> \<not> list_all (has_column [''datetime'', ''open'']) [''open'', ''high'', ''low'', ''close'']
   \<and> fetch_from_twelvedata keyed_cfg parse_decimal (TdFrame [''datetime'', ''open''] [good_row])
       = None"
  using coerce_keeps_rows [where cfg = keyed_cfg and cols = td_columns
      and rows = "[good_row, bad_row]" and parse = parse_decimal
      and df = "map (td_row parse_decimal) [good_row, bad_row]"]
    coerce_keeps_rows [where cfg = keyed_cfg and cols = "[''datetime'', ''open'']"
      and rows = "[good_row]" and parse = parse_decimal and df = "[]"]
  by (simp add: keyed_cfg_def default_cfg_def has_column_def td_columns_def good_row_def
      bad_row_def td_row_def to_numeric_def parse_decimal_def digit_of_def)

section \<open>The scan\<close>

lemma scan_pairs_step:
  assumes "get_candle cfg w q = Some df" and "analyze_pair cfg (Some df) = Some res"
  shows "\<exists>st2. scan_pairs cfg w risk reward (q # ps) st = scan_pairs cfg w risk reward ps st2
           \<and> (\<forall>p. length (signals_for p (sent st2))
                     = length (signals_for p (sent st)) + (if q = p then 1 else 0)
                 \<and> length (messages_for p (sent st2))
                     = length (messages_for p (sent st))
                       + (if q = p then (if DEMO_RESULT cfg then 2 else 1) else 0)
                 \<and> (q \<noteq> p \<longrightarrow> messages_for p (sent st2) = messages_for p (sent st)))"
proof -
  let ?st1 = "send (SignalMsg q res risk reward) st"
  let ?st2 = "if DEMO_RESULT cfg
              then send_result q (0.35 < w_random w q) (sig_entry res) (sig_sl res) (sig_tp res)
                     risk reward ?st1
              else ?st1"
  have "scan_pairs cfg w risk reward (q # ps) st = scan_pairs cfg w risk reward ps ?st2"
    using assms by (simp add: Let_def)
  moreover have "length (signals_for p (sent ?st2))
                     = length (signals_for p (sent st)) + (if q = p then 1 else 0)
                 \<and> length (messages_for p (sent ?st2))
                     = length (messages_for p (sent st))
                       + (if q = p then (if DEMO_RESULT cfg then 2 else 1) else 0)
                 \<and> (q \<noteq> p \<longrightarrow> messages_for p (sent ?st2) = messages_for p (sent st))" for p
    by (simp add: send_def send_result_def Let_def messages_for_def signals_for_def)
  ultimately show ?thesis by blast
qed

lemma scan_pairs_no_messages:
  "analyze_pair cfg (get_candle cfg w p) = None \<Longrightarrow>
   messages_for p (sent (scan_pairs cfg w risk reward ps st)) = messages_for p (sent st)"
proof (induction ps arbitrary: st)
  case Nil
  then show ?case by simp
next
  case (Cons q ps)
  show ?case
  proof (cases "analyze_pair cfg (get_candle cfg w q)")
    case None
    then have "scan_pairs cfg w risk reward (q # ps) st = scan_pairs cfg w risk reward ps st"
      by (intro scan_pairs_skip) simp
    with Cons show ?thesis by simp
  next
    case (Some res)
    with Cons.prems have "q \<noteq> p" by auto
    from Some obtain df where df: "get_candle cfg w q = Some df"
      by (cases "get_candle cfg w q") simp_all
    with Some have "analyze_pair cfg (Some df) = Some res" by simp
    from scan_pairs_step [OF df this, of risk reward ps st] \<open>q \<noteq> p\<close>
    obtain st2 where "scan_pairs cfg w risk reward (q # ps) st = scan_pairs cfg w risk reward ps st2"
      and "messages_for p (sent st2) = messages_for p (sent st)"
      by blast
    with Cons.IH [OF Cons.prems, of st2] show ?thesis by simp
  qed
qed

lemma signals_for_messages_for:
  "signals_for p msgs = filter (is_signal_for p) (messages_for p msgs)"
proof -
  have "is_signal_for p m \<Longrightarrow> msg_pair m = Some p" for m
    by (cases m) simp_all
  then show ?thesis
    by (auto simp: signals_for_def messages_for_def intro: filter_cong)
qed

lemma scan_pairs_counts:
  "length (signals_for p (sent (scan_pairs cfg w risk reward ps st))) =
     length (signals_for p (sent st))
     + length (filter (\<lambda>q. q = p \<and> analyze_pair cfg (get_candle cfg w q) \<noteq> None) ps)
   \<and> length (messages_for p (sent (scan_pairs cfg w risk reward ps st))) =
     length (messages_for p (sent st))
     + (if DEMO_RESULT cfg then 2 else 1)
       * length (filter (\<lambda>q. q = p \<and> analyze_pair cfg (get_candle cfg w q) \<noteq> None) ps)"
proof (induction ps arbitrary: st)
  case Nil
  then show ?case by simp
next
  case (Cons q ps)
  show ?case
  proof (cases "analyze_pair cfg (get_candle cfg w q)")
    case None
    then have "scan_pairs cfg w risk reward (q # ps) st = scan_pairs cfg w risk reward ps st"
      by (intro scan_pairs_skip) simp
    with None Cons show ?thesis by simp
  next
    case (Some res)
    from Some obtain df where df: "get_candle cfg w q = Some df"
      by (cases "get_candle cfg w q") simp_all
    with Some have "analyze_pair cfg (Some df) = Some res" by simp
    from scan_pairs_step [OF df this, of risk reward ps st]
    obtain st2 where st2: "scan_pairs cfg w risk reward (q # ps) st = scan_pairs cfg w risk reward ps st2"
      and n: "length (signals_for p (sent st2))
                     = length (signals_for p (sent st)) + (if q = p then 1 else 0)"
        "length (messages_for p (sent st2))
                     = length (messages_for p (sent st))
                       + (if q = p then (if DEMO_RESULT cfg then 2 else 1) else 0)"
      by blast
    show ?thesis
      unfolding st2 using Cons.IH [of st2] n Some by simp
  qed
qed

lemma analyze_yahoo_world:
  "TWELVEDATA_KEY cfg = [] \<Longrightarrow> analyze_pair cfg (get_candle cfg yahoo_world pair) \<noteq> None"
proof -
  assume key: "TWELVEDATA_KEY cfg = []"
  have "get_candle cfg yahoo_world pair = Some (map yf_candle (sort_index_desc rising_yf))"
    using key
    by (simp add: get_candle_def fetch_from_twelvedata_def fetch_from_twelvedata_body_def
        fetch_from_yahoo_def fetch_from_yahoo_body_def except_none_def yahoo_world_def
        silent_world_def) (simp add: rising_yf_def)
  moreover have "60 \<le> length (map yf_candle (sort_index_desc rising_yf))"
    by (simp add: rising_yf_def)
  ultimately show ?thesis
    by (simp add: analyze_pair_accepted)
qed

lemma get_candle_primary:
  "get_candle keyed_cfg (yahoo_world\<lparr>w_twelvedata := (\<lambda>pair. TdFrame td_columns (replicate n good_row))\<rparr>)
     pair = Some (replicate n \<lparr>open_col = Some 1.1, high_col = Some 1.101, low_col = Some 1.099,
                               close_col = Some 1.1\<rparr>)"
  by (simp add: get_candle_def fetch_from_twelvedata_frame td_columns_present keyed_cfg_def
      yahoo_world_def silent_world_def good_row_def td_row_def to_numeric_def parse_decimal_def
      digit_of_def)

text \<open>
  Claim C4 as stated fails: with the key set and TwelveData answering a usable frame of
  60 rows, the engine is handed all 60 rows and the scan sends a signal for the pair.
\<close>

theorem primary_success_sends_signal:
  "w_twelvedata primary60_world ''EUR/USD'' = TdFrame td_columns (replicate 60 good_row)
   \<and> get_candle keyed_cfg primary60_world ''EUR/USD''
       = Some (replicate 60 \<lparr>open_col = Some 1.1, high_col = Some 1.101, low_col = Some 1.099,
                             close_col = Some 1.1\<rparr>)
   \<and> analyze_pair keyed_cfg (get_candle keyed_cfg primary60_world ''EUR/USD'')
       = Some \<lparr>sig_direction = SELL, sig_entry = Some 1.1, sig_sl = Some 1.102,
               sig_tp = Some 1.096, sig_rng = Some 0.002, sig_rr_text = 2\<rparr>
   \<and> length (signals_for ''EUR/USD'' (sent (signal_scan keyed_cfg primary60_world start_state))) = 1"
proof -
  have w: "w_twelvedata primary60_world ''EUR/USD'' = TdFrame td_columns (replicate 60 good_row)"
    by (simp add: primary60_world_def)
  have g: "get_candle keyed_cfg primary60_world q
       = Some (replicate 60 \<lparr>open_col = Some 1.1, high_col = Some 1.101, low_col = Some 1.099,
                             close_col = Some 1.1\<rparr>)" for q
    unfolding primary60_world_def by (rule get_candle_primary)
  have a: "analyze_pair keyed_cfg (get_candle keyed_cfg primary60_world q)
       = Some \<lparr>sig_direction = SELL, sig_entry = Some 1.1, sig_sl = Some 1.102,
               sig_tp = Some 1.096, sig_rng = Some 0.002, sig_rr_text = 2\<rparr>" for q
    unfolding g
    by (simp add: analyze_pair_accepted fsub_def fadd_def fmul_def fabs_def py_max_numbers
        keyed_cfg_def default_cfg_def py_int_def)
  then have one: "length (filter (\<lambda>q. q = ''EUR/USD''
                      \<and> analyze_pair keyed_cfg (get_candle keyed_cfg primary60_world q) \<noteq> None)
                    PAIR_LIST) = 1"
    by (simp add: PAIR_LIST_def)
  have none: "signals_for ''EUR/USD'' (sent start_state) = []"
    by (simp add: start_state_def signals_for_def)
  have on: "\<not> is_weekend_off primary60_world"
    by (simp add: is_weekend_off_def primary60_world_def yahoo_world_def silent_world_def)
  have "length (signals_for ''EUR/USD'' (sent (signal_scan keyed_cfg primary60_world start_state))) = 1"
    using on one none by (simp add: signal_scan_def Let_def scan_pairs_counts)
  with w g a show ?thesis by simp
qed

text \<open>
  Claim C4, amended: when the key is set and TwelveData answers a usable frame,
  \<open>get_candle\<close> hands the engine that frame row for row, as many rows as the answer has
  (the code does not cut it to the 30 of the request), and whatever Yahoo would answer.
  When the frame has fewer than 60 rows, as it has when the provider keeps to the
  \<^verbatim>\<open>outputsize\<close> of 30, \<open>analyze_pair\<close> turns it down and the scan sends no message
  about that pair. A frame of 60 rows or more is accepted, and on a scanning day the
  scan sends a signal for that pair.
\<close>

theorem primary_fetch_rows:
  assumes "fetch_from_twelvedata cfg (w_parse w) (w_twelvedata w pair) = Some df"
    and "w_twelvedata w pair = TdFrame cols rows"
  shows "TWELVEDATA_KEY cfg \<noteq> []
       \<and> length df = length rows
       \<and> get_candle cfg w pair = Some df
       \<and> get_candle cfg (w\<lparr>w_yahoo := y\<rparr>) pair = Some df
       \<and> (length rows < 60 \<longrightarrow>
            analyze_pair cfg (Some df) = None
          \<and> signals_for pair (sent (signal_scan cfg w st)) = signals_for pair (sent st)
          \<and> messages_for pair (sent (signal_scan cfg w st)) = messages_for pair (sent st))
       \<and> (length rows \<le> 30 \<longrightarrow> analyze_pair cfg (Some df) = None)
       \<and> (60 \<le> length rows \<longrightarrow> analyze_pair cfg (Some df) \<noteq> None)
       \<and> (60 \<le> length rows \<and> w_weekday w \<in> {0, 1, 2, 3} \<and> pair \<in> set PAIR_LIST \<longrightarrow>
            length (signals_for pair (sent (signal_scan cfg w st)))
              = length (signals_for pair (sent st)) + 1)"
proof -
  from assms have key: "TWELVEDATA_KEY cfg \<noteq> []" and len: "length df = length rows"
    by (auto simp: fetch_from_twelvedata_Some)
  from assms(1) have g: "get_candle cfg w pair = Some df"
    by (simp add: get_candle_def)
  from assms(1) have g': "get_candle cfg (w\<lparr>w_yahoo := y\<rparr>) pair = Some df"
    by (simp add: get_candle_def)
  have short: "analyze_pair cfg (Some df) = None
          \<and> signals_for pair (sent (signal_scan cfg w st)) = signals_for pair (sent st)
          \<and> messages_for pair (sent (signal_scan cfg w st)) = messages_for pair (sent st)"
    if "length rows < 60"
  proof -
    from that len have a: "analyze_pair cfg (Some df) = None"
      by (simp add: analyze_pair_rejected)
    with g have "analyze_pair cfg (get_candle cfg w pair) = None" by simp
    then have m: "messages_for pair (sent (signal_scan cfg w st)) = messages_for pair (sent st)"
      by (simp add: signal_scan_def Let_def scan_pairs_no_messages)
    then have "signals_for pair (sent (signal_scan cfg w st)) = signals_for pair (sent st)"
      by (simp add: signals_for_messages_for)
    with a m show ?thesis by simp
  qed
  have long: "analyze_pair cfg (Some df) \<noteq> None" if "60 \<le> length rows"
    using that len by (simp add: analyze_pair_accepted)
  have sig: "length (signals_for pair (sent (signal_scan cfg w st)))
              = length (signals_for pair (sent st)) + 1"
    if "60 \<le> length rows" and wd: "w_weekday w \<in> {0, 1, 2, 3}" and p: "pair \<in> set PAIR_LIST"
  proof -
    from wd have "\<not> is_weekend_off w"
      by (auto simp: is_weekend_off_def)
    moreover from long [OF that(1)] g have "analyze_pair cfg (get_candle cfg w pair) \<noteq> None"
      by simp
    with p have "length (filter (\<lambda>q. q = pair \<and> analyze_pair cfg (get_candle cfg w q) \<noteq> None)
                   PAIR_LIST) = 1"
      by (auto simp: PAIR_LIST_def)
    ultimately show ?thesis
      by (simp add: signal_scan_def Let_def scan_pairs_counts)
  qed
  have thirty: "analyze_pair cfg (Some df) = None" if "length rows \<le> 30"
    using that len by (simp add: analyze_pair_rejected)
  from key len g g' short thirty long sig show ?thesis by auto
qed

theorem primary_fetch_rows_witness:
  "fetch_from_twelvedata keyed_cfg (w_parse primary_world) (w_twelvedata primary_world ''EUR/USD'')
     = Some (replicate 30 \<lparr>open_col = Some 1.1, high_col = Some 1.101, low_col = Some 1.099,
                           close_col = Some 1.1\<rparr>)
   \<and> w_twelvedata primary_world ''EUR/USD'' = TdFrame td_columns (replicate 30 good_row)
   \<and> length (replicate 30 good_row) < 60
   \<and> analyze_pair keyed_cfg (get_candle keyed_cfg primary_world ''EUR/USD'') = None
   \<and> analyze_pair default_cfg (get_candle default_cfg primary_world ''EUR/USD'') \<noteq> None
   \<and> messages_for ''EUR/USD'' (sent (signal_scan keyed_cfg primary_world start_state)) = []
   \<and> fetch_from_twelvedata keyed_cfg (w_parse primary60_world) (w_twelvedata primary60_world ''GBP/USD'')
     = Some (replicate 60 \<lparr>open_col = Some 1.1, high_col = Some 1.101, low_col = Some 1.099,
                           close_col = Some 1.1\<rparr>)
   \<and> w_twelvedata primary60_world ''GBP/USD'' = TdFrame td_columns (replicate 60 good_row)
   \<and> 60 \<le> length (replicate 60 good_row) \<and> w_weekday primary60_world \<in> {0, 1, 2, 3}
   \<and> ''GBP/USD'' \<in> set PAIR_LIST
   \<and> length (signals_for ''GBP/USD'' (sent (signal_scan keyed_cfg primary60_world start_state))) = 1"
proof -
  have f: "fetch_from_twelvedata keyed_cfg (w_parse primary_world)
             (w_twelvedata primary_world ''EUR/USD'')
     = Some (replicate 30 \<lparr>open_col = Some 1.1, high_col = Some 1.101, low_col = Some 1.099,
                           close_col = Some 1.1\<rparr>)"
    by (simp add: fetch_from_twelvedata_frame td_columns_present keyed_cfg_def primary_world_def
        yahoo_world_def silent_world_def good_row_def td_row_def to_numeric_def parse_decimal_def
        digit_of_def)
  have v: "w_twelvedata primary_world ''EUR/USD'' = TdFrame td_columns (replicate 30 good_row)"
    by (simp add: primary_world_def)
  have f60: "fetch_from_twelvedata keyed_cfg (w_parse primary60_world)
             (w_twelvedata primary60_world ''GBP/USD'')
     = Some (replicate 60 \<lparr>open_col = Some 1.1, high_col = Some 1.101, low_col = Some 1.099,
                           close_col = Some 1.1\<rparr>)"
    by (simp add: fetch_from_twelvedata_frame td_columns_present keyed_cfg_def
        primary60_world_def yahoo_world_def silent_world_def good_row_def td_row_def
        to_numeric_def parse_decimal_def digit_of_def)
  have v60: "w_twelvedata primary60_world ''GBP/USD'' = TdFrame td_columns (replicate 60 good_row)"
    by (simp add: primary60_world_def)
  have wd: "w_weekday primary60_world = 0"
    by (simp add: primary60_world_def yahoo_world_def silent_world_def)
  have y: "get_candle default_cfg primary_world ''EUR/USD'' = get_candle default_cfg yahoo_world ''EUR/USD''"
    by (simp add: get_candle_def fetch_from_twelvedata_def fetch_from_twelvedata_body_def
        except_none_def default_cfg_def primary_world_def)
  have n: "analyze_pair default_cfg (get_candle default_cfg primary_world ''EUR/USD'') \<noteq> None"
    unfolding y by (rule analyze_yahoo_world) (simp add: default_cfg_def)
  have e: "signals_for ''GBP/USD'' (sent start_state) = []"
      "messages_for ''EUR/USD'' (sent start_state) = []"
    by (simp_all add: start_state_def signals_for_def messages_for_def)
  show ?thesis
    using primary_fetch_rows [OF f v, of "w_yahoo primary_world" start_state]
      primary_fetch_rows [OF f60 v60, of "w_yahoo primary60_world" start_state]
      f v f60 v60 wd n e
    by (simp add: PAIR_LIST_def)
qed

text \<open>
  Claim C10 as stated fails: on a Monday with the demo toggle on, a pair whose fetch and
  analysis succeed gets two outbound messages, the signal and its simulated result.
\<close>

theorem demo_scan_sends_two_messages:
  "w_weekday yahoo_world = 0
   \<and> DEMO_RESULT demo_cfg
   \<and> length (messages_for ''EUR/USD'' (sent (signal_scan demo_cfg yahoo_world start_state))) = 2"
proof -
  have key: "TWELVEDATA_KEY demo_cfg = []"
    by (simp add: demo_cfg_def default_cfg_def)
  have on: "\<not> is_weekend_off yahoo_world" and wd: "w_weekday yahoo_world = 0"
    by (simp_all add: is_weekend_off_def yahoo_world_def silent_world_def)
  have demo: "DEMO_RESULT demo_cfg"
    by (simp add: demo_cfg_def)
  have "analyze_pair demo_cfg (get_candle demo_cfg yahoo_world q) \<noteq> None" for q
    by (rule analyze_yahoo_world [OF key])
  then have one: "length (filter (\<lambda>q. q = ''EUR/USD''
                      \<and> analyze_pair demo_cfg (get_candle demo_cfg yahoo_world q) \<noteq> None)
                    PAIR_LIST) = 1"
    by (simp add: PAIR_LIST_def)
  have none: "messages_for ''EUR/USD'' (sent start_state) = []"
    by (simp add: start_state_def messages_for_def)
  show ?thesis
    using on wd demo one none
    by (simp add: signal_scan_def Let_def scan_pairs_counts)
qed

text \<open>
  Claim C10, amended: on Friday, Saturday and Sunday (weekdays 4, 5, 6) \<open>signal_scan\<close>
  changes nothing, so it sends no message. On Monday to Thursday (weekdays 0 to 3), for
  every pair of \<open>PAIR_LIST\<close> whose fetch and analysis succeed, it sends exactly one signal
  message for that pair; the messages about the pair are this one alone when
  \<open>DEMO_RESULT\<close> is off, and the signal and one result message when it is on.
\<close>

theorem weekday_gate:
  "(w_weekday w \<in> {4, 5, 6} \<longrightarrow> signal_scan cfg w st = st)
   \<and> (w_weekday w \<in> {0, 1, 2, 3} \<and> pair \<in> set PAIR_LIST
        \<and> get_candle cfg w pair = Some df \<and> analyze_pair cfg (Some df) = Some res
      \<longrightarrow> length (signals_for pair (sent (signal_scan cfg w st)))
            = length (signals_for pair (sent st)) + 1
        \<and> length (messages_for pair (sent (signal_scan cfg w st)))
            = length (messages_for pair (sent st)) + (if DEMO_RESULT cfg then 2 else 1))"
proof -
  have off: "w_weekday w \<in> {4, 5, 6} \<Longrightarrow> signal_scan cfg w st = st"
    by (auto simp: signal_scan_def is_weekend_off_def)
  have on: "length (signals_for pair (sent (signal_scan cfg w st)))
            = length (signals_for pair (sent st)) + 1
        \<and> length (messages_for pair (sent (signal_scan cfg w st)))
            = length (messages_for pair (sent st)) + (if DEMO_RESULT cfg then 2 else 1)"
    if wd: "w_weekday w \<in> {0, 1, 2, 3}" and p: "pair \<in> set PAIR_LIST"
      and g: "get_candle cfg w pair = Some df" and a: "analyze_pair cfg (Some df) = Some res"
  proof -
    from wd have "\<not> is_weekend_off w"
      by (auto simp: is_weekend_off_def)
    moreover from g a have "analyze_pair cfg (get_candle cfg w pair) \<noteq> None"
      by simp
    with p have "length (filter (\<lambda>q. q = pair \<and> analyze_pair cfg (get_candle cfg w q) \<noteq> None)
                   PAIR_LIST) = 1"
      by (auto simp: PAIR_LIST_def)
    ultimately show ?thesis
      by (simp add: signal_scan_def Let_def scan_pairs_counts)
  qed
  from off on show ?thesis by blast
qed

theorem weekday_gate_witness:
  "w_weekday (yahoo_world\<lparr>w_weekday := 4\<rparr>) \<in> {4, 5, 6}
   \<and> signal_scan default_cfg (yahoo_world\<lparr>w_weekday := 4\<rparr>) start_state = start_state
   \<and> w_weekday yahoo_world \<in> {0, 1, 2, 3}
   \<and> ''GBP/USD'' \<in> set PAIR_LIST
   \<and> get_candle default_cfg yahoo_world ''GBP/USD'' = Some (map yf_candle (sort_index_desc rising_yf))
   \<and> analyze_pair default_cfg (Some (map yf_candle (sort_index_desc rising_yf))) \<noteq> None
   \<and> length (signals_for ''GBP/USD'' (sent (signal_scan default_cfg yahoo_world start_state))) = 1
   \<and> length (messages_for ''GBP/USD'' (sent (signal_scan default_cfg yahoo_world start_state))) = 1"
proof -
  have g: "get_candle default_cfg yahoo_world ''GBP/USD'' = Some (map yf_candle (sort_index_desc rising_yf))"
    by (simp add: get_candle_def fetch_from_twelvedata_def fetch_from_twelvedata_body_def
        fetch_from_yahoo_def fetch_from_yahoo_body_def except_none_def yahoo_world_def
        silent_world_def default_cfg_def) (simp add: rising_yf_def)
  have "60 \<le> length (map yf_candle (sort_index_desc rising_yf))"
    by (simp add: rising_yf_def)
  from analyze_pair_accepted [OF this, of default_cfg]
  obtain res where a: "analyze_pair default_cfg (Some (map yf_candle (sort_index_desc rising_yf))) = Some res"
    by blast
  have wd: "w_weekday yahoo_world = 0"
    by (simp add: yahoo_world_def silent_world_def)
  show ?thesis
    using weekday_gate [of "yahoo_world\<lparr>w_weekday := 4\<rparr>" default_cfg start_state]
      weekday_gate [of yahoo_world default_cfg start_state "''GBP/USD''"
        "map yf_candle (sort_index_desc rising_yf)" res] g a wd
    by (simp add: PAIR_LIST_def start_state_def default_cfg_def signals_for_def messages_for_def)
qed

end
